theory Spec2Isabelle
  imports Complex_Main
begin

section \<open>Schema of the kilo-reservation database\<close>

text \<open>
  The model follows the two SQL migrations (tables, triggers and row-level-security
  policies) and the page handlers that call the data API (\<open>ReservationModal.handleSubmit\<close>,
  \<open>Track.handleSearch\<close>, \<open>AdminDashboard.handleUpdateStatus\<close> and
  \<open>AdminDashboard.handleDeleteOffer\<close>, \<open>Offers.fetchOffers\<close>).

  UUIDs are natural numbers and timestamps are natural numbers. A SQL \<open>INTEGER\<close> is an
  \<open>int\<close> together with the range test \<open>int4_ok\<close>: PostgreSQL raises
  \<open>numeric_value_out_of_range\<close> instead of wrapping. A nullable column is an \<open>option\<close>.
  Columns named \<open>id\<close>, \<open>status\<close>, \<open>user_id\<close>, \<open>created_at\<close> and \<open>updated_at\<close> occur in
  several tables, so they carry the table as a prefix (\<open>notes\<close>, an Isabelle keyword, becomes
  \<open>hist_notes\<close>); every other column keeps its name. \<open>price_per_kilo\<close> and
  \<open>departure_date\<close> are plain numbers; no statement below computes with them.
  The tables \<open>profiles\<close> and \<open>auth.users\<close> are left out: the user of a reservation is the
  signed-in user, whose account exists. Primary keys of \<open>status_history\<close> are not
  checked: its ids come from \<open>gen_random_uuid()\<close>.
\<close>

type_synonym uuid = nat
type_synonym timestamp = nat

datatype shipment_status =
  pending_submission | received_at_origin | in_transit | arrived_at_destination | delivered

datatype app_role = admin | user

record user_roles_row =
  role_id :: uuid
  role_user_id :: uuid
  role :: app_role

record cargo_offers_row =
  offer_id :: uuid
  departure_city :: string
  departure_country :: string
  departure_country_flag :: string
  arrival_city :: string
  arrival_country :: string
  arrival_country_flag :: string
  departure_date :: nat
  total_kilos :: int
  available_kilos :: int
  price_per_kilo :: int
  is_active :: "bool option"
  offer_created_at :: timestamp
  offer_updated_at :: timestamp

record reservations_row =
  res_id :: uuid
  res_user_id :: uuid
  cargo_offer_id :: uuid
  kilos_reserved :: int
  shipment_description :: "string option"
  res_status :: shipment_status
  tracking_code :: "string option"
  status_updated_at :: timestamp
  res_created_at :: timestamp
  res_updated_at :: timestamp

record status_history_row =
  hist_id :: uuid
  reservation_id :: uuid
  hist_status :: shipment_status
  hist_notes :: "string option"
  hist_created_at :: timestamp

record database =
  user_roles :: "user_roles_row list"
  cargo_offers :: "cargo_offers_row list"
  reservations :: "reservations_row list"
  status_history :: "status_history_row list"

text \<open>
  What one statement reads from outside the tables: \<open>now()\<close>, the value
  \<open>gen_random_uuid()\<close> returns for a new row, and the successive results of \<open>random()\<close>
  (call number \<open>i\<close> gives \<open>random i\<close>, the value of a double-precision number in
  \<open>[0, 1)\<close>).
\<close>

record env =
  now :: timestamp
  gen_random_uuid :: uuid
  random :: "nat \<Rightarrow> real"

datatype pg_error =
  unique_violation
  | foreign_key_violation
  | numeric_value_out_of_range
  | rls_violation
  | multiple_rows

definition int4_ok :: "int \<Rightarrow> bool" where
  "int4_ok x = (- 2147483648 \<le> x \<and> x \<le> 2147483647)"

section \<open>Tracking codes\<close>

text \<open>
  \<open>substr(s, start, count)\<close> of PostgreSQL: positions are counted from 1, and the part of
  the window \<open>start .. start + count - 1\<close> that lies inside the string is returned.
\<close>

definition substr :: "string \<Rightarrow> int \<Rightarrow> int \<Rightarrow> string" where
  "substr s start cnt =
     (let lo = max start 1; hi = start + cnt
      in take (nat (hi - lo)) (drop (nat (lo - 1)) s))"

definition chars :: string where
  "chars = ''ABCDEFGHIJKLMNOPQRSTUVWXYZ0123456789''"

text \<open>
  Double-precision arithmetic. A result of \<open>random()\<close> is a double in \<open>[0, 1)\<close>, that is
  \<open>n / 2^53\<close> for a natural number \<open>n < 2^53\<close>. The values that occur in
  \<open>random() * length(chars) + 1\<close> are counted in units of \<open>2^-53\<close>: a natural number \<open>N\<close>
  stands for \<open>N / 2^53\<close>. Such a value is a double when \<open>N\<close> has at most 53 significant
  bits; \<open>round53\<close> gives the nearest such number, a tie going to the even significand, as
  the floating-point unit does after every operation.
\<close>

fun bit_length :: "nat \<Rightarrow> nat" where
  "bit_length n = (if n = 0 then 0 else Suc (bit_length (n div 2)))"

definition round53 :: "nat \<Rightarrow> nat" where
  "round53 N =
     (let b = bit_length N in
      if b \<le> 53 then N
      else
        let s = b - 53; q = N div 2 ^ s; rem = N mod 2 ^ s; half = 2 ^ (s - 1)
        in (if rem > half \<or> (rem = half \<and> odd q) then q + 1 else q) * 2 ^ s)"

text \<open>
  \<open>generate_tracking_code\<close>: the loop \<open>FOR i IN 1..8\<close> appends
  \<open>substr(chars, floor(random() * length(chars) + 1)::integer, 1)\<close> to \<open>'KG-'\<close>.
  In \<open>pick\<close>, \<open>n\<close> is the numerator of the result \<open>r\<close> of \<open>random()\<close>; the product with
  \<open>length(chars)\<close> is rounded, \<open>1\<close> (that is \<open>2^53\<close> units) is added and the sum is rounded;
  \<open>floor\<close> is the division by \<open>2^53\<close>. (A real number that is not of the form \<open>n / 2^53\<close> is
  read as the double below it; \<open>random()\<close> does not return one.)
\<close>

definition pick :: "real \<Rightarrow> string" where
  "pick r =
     (let n = nat \<lfloor>r * 2 ^ 53\<rfloor>;
          product = round53 (length chars * n);
          total = round53 (product + 2 ^ 53)
      in substr chars (int (total div 2 ^ 53)) 1)"

definition generate_tracking_code :: "(nat \<Rightarrow> real) \<Rightarrow> string" where
  "generate_tracking_code rnd = foldl (\<lambda>result i. result @ pick (rnd i)) ''KG-'' [1..<9]"

text \<open>
  \<open>set_tracking_code\<close>, the \<open>BEFORE INSERT\<close> trigger of \<open>reservations\<close>.
\<close>

definition set_tracking_code :: "env \<Rightarrow> reservations_row \<Rightarrow> reservations_row" where
  "set_tracking_code e NEW =
     (if tracking_code NEW = None
      then NEW\<lparr>tracking_code := Some (generate_tracking_code (random e))\<rparr>
      else NEW)"

text \<open>The shape \<open>^KG-[A-Z0-9]{8}$\<close>, written out on the byte values of the characters.\<close>

definition upper_or_digit :: "char \<Rightarrow> bool" where
  "upper_or_digit c =
     (let n = (of_char c :: nat) in (65 \<le> n \<and> n \<le> 90) \<or> (48 \<le> n \<and> n \<le> 57))"

definition tracking_code_format :: "string \<Rightarrow> bool" where
  "tracking_code_format s =
     (length s = 11 \<and> take 3 s = ''KG-'' \<and> list_all upper_or_digit (drop 3 s))"

section \<open>Row-level security\<close>

text \<open>
  \<open>has_role(_user_id, _role)\<close>. \<open>auth.uid()\<close> is \<open>None\<close> for a request without a session;
  \<open>user_id = NULL\<close> selects no row, so nobody without a session has a role.
\<close>

definition has_role :: "database \<Rightarrow> uuid option \<Rightarrow> app_role \<Rightarrow> bool" where
  "has_role db uid rl =
     (case uid of
        None \<Rightarrow> False
      | Some u \<Rightarrow> list_ex (\<lambda>ur. role_user_id ur = u \<and> role ur = rl) (user_roles db))"

datatype pg_command = cmd_select | cmd_insert | cmd_update | cmd_delete | cmd_all

text \<open>
  A \<open>CREATE POLICY\<close> statement: its name, the command after \<open>FOR\<close>, and the \<open>USING\<close> and
  \<open>WITH CHECK\<close> expressions when it has them. The expressions read the tables (through
  \<open>has_role\<close>), \<open>auth.uid()\<close> and the row.
\<close>

record 'row policy =
  policy_name :: string
  policy_cmd :: pg_command
  policy_using :: "(database \<Rightarrow> uuid option \<Rightarrow> 'row \<Rightarrow> bool) option"
  policy_with_check :: "(database \<Rightarrow> uuid option \<Rightarrow> 'row \<Rightarrow> bool) option"

definition reservations_policies :: "reservations_row policy list" where
  "reservations_policies =
     [\<lparr>policy_name = ''Users can view their own reservations'', policy_cmd = cmd_select,
       policy_using = Some (\<lambda>db uid r. uid = Some (res_user_id r)),
       policy_with_check = None\<rparr>,
      \<lparr>policy_name = ''Admins can view all reservations'', policy_cmd = cmd_select,
       policy_using = Some (\<lambda>db uid r. has_role db uid admin),
       policy_with_check = None\<rparr>,
      \<lparr>policy_name = ''Users can create reservations'', policy_cmd = cmd_insert,
       policy_using = None,
       policy_with_check = Some (\<lambda>db uid r. uid = Some (res_user_id r))\<rparr>,
      \<lparr>policy_name = ''Admins can update reservations'', policy_cmd = cmd_update,
       policy_using = Some (\<lambda>db uid r. has_role db uid admin),
       policy_with_check = None\<rparr>,
      \<lparr>policy_name = ''Users can update their pending reservations'', policy_cmd = cmd_update,
       policy_using =
         Some (\<lambda>db uid r. uid = Some (res_user_id r) \<and> res_status r = pending_submission),
       policy_with_check = None\<rparr>]"

definition cargo_offers_policies :: "cargo_offers_row policy list" where
  "cargo_offers_policies =
     [\<lparr>policy_name = ''Anyone can view active cargo offers'', policy_cmd = cmd_select,
       policy_using = Some (\<lambda>db uid ofr. is_active ofr = Some True),
       policy_with_check = None\<rparr>,
      \<lparr>policy_name = ''Admins can view all cargo offers'', policy_cmd = cmd_select,
       policy_using = Some (\<lambda>db uid ofr. has_role db uid admin),
       policy_with_check = None\<rparr>,
      \<lparr>policy_name = ''Admins can create cargo offers'', policy_cmd = cmd_insert,
       policy_using = None,
       policy_with_check = Some (\<lambda>db uid ofr. has_role db uid admin)\<rparr>,
      \<lparr>policy_name = ''Admins can update cargo offers'', policy_cmd = cmd_update,
       policy_using = Some (\<lambda>db uid ofr. has_role db uid admin),
       policy_with_check = None\<rparr>,
      \<lparr>policy_name = ''Admins can delete cargo offers'', policy_cmd = cmd_delete,
       policy_using = Some (\<lambda>db uid ofr. has_role db uid admin),
       policy_with_check = None\<rparr>]"

text \<open>
  With row-level security enabled and no \<open>FORCE\<close>/bypass, the policies are permissive: an
  existing row is reachable by a command when the \<open>USING\<close> expression of some policy for that
  command (or for \<open>ALL\<close>) holds; a new row is accepted when the \<open>WITH CHECK\<close> expression of
  some such policy holds, the \<open>USING\<close> expression standing in where \<open>WITH CHECK\<close> is not
  written. With no policy for the command nothing is reachable.
\<close>

definition applies :: "pg_command \<Rightarrow> 'row policy \<Rightarrow> bool" where
  "applies cmd p = (policy_cmd p = cmd \<or> policy_cmd p = cmd_all)"

definition using_ok ::
  "'row policy list \<Rightarrow> pg_command \<Rightarrow> database \<Rightarrow> uuid option \<Rightarrow> 'row \<Rightarrow> bool" where
  "using_ok ps cmd db uid row =
     list_ex (\<lambda>p. applies cmd p \<and>
                (case policy_using p of Some f \<Rightarrow> f db uid row | None \<Rightarrow> False)) ps"

definition with_check_ok ::
  "'row policy list \<Rightarrow> pg_command \<Rightarrow> database \<Rightarrow> uuid option \<Rightarrow> 'row \<Rightarrow> bool" where
  "with_check_ok ps cmd db uid row =
     list_ex (\<lambda>p. applies cmd p \<and>
                (case policy_with_check p of
                   Some f \<Rightarrow> f db uid row
                 | None \<Rightarrow> (case policy_using p of Some f \<Rightarrow> f db uid row | None \<Rightarrow> False))) ps"

section \<open>Triggers\<close>

text \<open>
  \<open>update_updated_at_column\<close>, the \<open>BEFORE UPDATE\<close> trigger of \<open>cargo_offers\<close> and of
  \<open>reservations\<close> (one HOL function for each row type).
\<close>

definition update_updated_at_column :: "env \<Rightarrow> cargo_offers_row \<Rightarrow> cargo_offers_row" where
  "update_updated_at_column e NEW = NEW\<lparr>offer_updated_at := now e\<rparr>"

definition update_updated_at_column_res :: "env \<Rightarrow> reservations_row \<Rightarrow> reservations_row" where
  "update_updated_at_column_res e NEW = NEW\<lparr>res_updated_at := now e\<rparr>"

text \<open>
  \<open>UPDATE cargo_offers SET available_kilos = f(available_kilos) WHERE id = oid\<close>, run by a
  \<open>SECURITY DEFINER\<close> function (no policy applies). A value outside \<open>INTEGER\<close> aborts the
  statement.
\<close>

definition set_kilos_row ::
  "env \<Rightarrow> uuid \<Rightarrow> (int \<Rightarrow> int) \<Rightarrow> cargo_offers_row \<Rightarrow> cargo_offers_row" where
  "set_kilos_row e oid f ofr =
     (if offer_id ofr = oid
      then update_updated_at_column e (ofr\<lparr>available_kilos := f (available_kilos ofr)\<rparr>)
      else ofr)"

definition set_available_kilos ::
  "env \<Rightarrow> uuid \<Rightarrow> (int \<Rightarrow> int) \<Rightarrow> database \<Rightarrow> pg_error + database" where
  "set_available_kilos e oid f db =
     (if list_ex (\<lambda>ofr. offer_id ofr = oid \<and> \<not> int4_ok (f (available_kilos ofr))) (cargo_offers db)
      then Inl numeric_value_out_of_range
      else Inr (db\<lparr>cargo_offers := map (set_kilos_row e oid f) (cargo_offers db)\<rparr>))"

datatype tg_op = TG_INSERT | TG_DELETE

text \<open>
  \<open>update_available_kilos\<close>, fired \<open>AFTER INSERT OR DELETE\<close> on \<open>reservations\<close>; \<open>row\<close> is
  \<open>NEW\<close> for an insert and \<open>OLD\<close> for a delete.
\<close>

definition update_available_kilos ::
  "env \<Rightarrow> tg_op \<Rightarrow> reservations_row \<Rightarrow> database \<Rightarrow> pg_error + database" where
  "update_available_kilos e op row db =
     (case op of
        TG_INSERT \<Rightarrow> set_available_kilos e (cargo_offer_id row) (\<lambda>a. a - kilos_reserved row) db
      | TG_DELETE \<Rightarrow> set_available_kilos e (cargo_offer_id row) (\<lambda>a. a + kilos_reserved row) db)"

text \<open>
  \<open>log_status_change\<close>, fired \<open>BEFORE UPDATE\<close> on \<open>reservations\<close>. \<open>status\<close> is \<open>NOT NULL\<close>,
  so \<open>IS DISTINCT FROM\<close> is inequality. The history row takes the column defaults for
  \<open>id\<close>, \<open>notes\<close> and \<open>created_at\<close>.
\<close>

definition log_status_change ::
  "env \<Rightarrow> reservations_row \<Rightarrow> reservations_row \<Rightarrow> database \<Rightarrow> reservations_row \<times> database" where
  "log_status_change e OLD NEW db =
     (if res_status OLD \<noteq> res_status NEW
      then (NEW\<lparr>status_updated_at := now e\<rparr>,
            db\<lparr>status_history := status_history db @
                 [\<lparr>hist_id = gen_random_uuid e, reservation_id = res_id NEW,
                   hist_status = res_status NEW, hist_notes = None,
                   hist_created_at = now e\<rparr>]\<rparr>)
      else (NEW, db))"

section \<open>Statements of the data API on \<open>reservations\<close>\<close>

subsection \<open>INSERT\<close>

text \<open>
  The body of an insert: the columns of \<open>reservations\<close> that a request may leave out have a
  default. The model lets the request choose \<open>status\<close> and \<open>tracking_code\<close>; \<open>id\<close> and the
  three timestamps always take their defaults.
\<close>

record reservations_insert =
  ins_user_id :: uuid
  ins_cargo_offer_id :: uuid
  ins_kilos_reserved :: int
  ins_shipment_description :: "string option"
  ins_status :: "shipment_status option"
  ins_tracking_code :: "string option"

definition new_row :: "env \<Rightarrow> reservations_insert \<Rightarrow> reservations_row" where
  "new_row e p =
     \<lparr>res_id = gen_random_uuid e,
      res_user_id = ins_user_id p,
      cargo_offer_id = ins_cargo_offer_id p,
      kilos_reserved = ins_kilos_reserved p,
      shipment_description = ins_shipment_description p,
      res_status = (case ins_status p of None \<Rightarrow> pending_submission | Some s \<Rightarrow> s),
      tracking_code = ins_tracking_code p,
      status_updated_at = now e,
      res_created_at = now e,
      res_updated_at = now e\<rparr>"

text \<open>
  One \<open>INSERT INTO reservations\<close> sent by the session \<open>uid\<close>: column defaults, the
  \<open>BEFORE INSERT\<close> trigger \<open>set_tracking_code\<close>, the \<open>WITH CHECK\<close> of the insert policy, the
  primary key, \<open>UNIQUE (tracking_code)\<close> (which never rejects \<open>NULL\<close>), the foreign key to
  \<open>cargo_offers\<close>, then the \<open>AFTER INSERT\<close> trigger \<open>update_available_kilos\<close>. Any error
  aborts the statement and leaves the tables as they were. The table has no \<open>CHECK\<close>
  constraint, and no step compares \<open>kilos_reserved\<close> with \<open>available_kilos\<close> or reads
  \<open>is_active\<close>.
\<close>

definition insert_reservation ::
  "database \<Rightarrow> uuid option \<Rightarrow> env \<Rightarrow> reservations_insert \<Rightarrow> pg_error + database" where
  "insert_reservation db uid e p =
     (if \<not> int4_ok (ins_kilos_reserved p) then Inl numeric_value_out_of_range
      else
        let NEW = set_tracking_code e (new_row e p) in
        if \<not> with_check_ok reservations_policies cmd_insert db uid NEW then Inl rls_violation
        else if list_ex (\<lambda>r. res_id r = res_id NEW) (reservations db) then Inl unique_violation
        else if list_ex (\<lambda>r. tracking_code r \<noteq> None \<and> tracking_code r = tracking_code NEW)
                  (reservations db)
        then Inl unique_violation
        else if \<not> list_ex (\<lambda>ofr. offer_id ofr = cargo_offer_id NEW) (cargo_offers db)
        then Inl foreign_key_violation
        else update_available_kilos e TG_INSERT NEW (db\<lparr>reservations := reservations db @ [NEW]\<rparr>))"

text \<open>
  \<open>handleSubmit\<close> of the reservation modal. \<open>usr\<close> is the signed-in user (the session the
  client sends with the insert), \<open>offer\<close> the copy of the offer row the modal was opened
  with, \<open>kilos\<close> and \<open>description\<close> the form state.
\<close>

datatype submit_failure = navigate_login | toast_invalid_kilos | toast_error pg_error

definition handleSubmit ::
  "database \<Rightarrow> uuid option \<Rightarrow> cargo_offers_row \<Rightarrow> int \<Rightarrow> string \<Rightarrow> env
     \<Rightarrow> submit_failure + database" where
  "handleSubmit db usr offer kilos description e =
     (case usr of
        None \<Rightarrow> Inl navigate_login
      | Some u \<Rightarrow>
          if kilos < 1 \<or> kilos > available_kilos offer then Inl toast_invalid_kilos
          else
            (case insert_reservation db usr e
                    \<lparr>ins_user_id = u,
                     ins_cargo_offer_id = offer_id offer,
                     ins_kilos_reserved = kilos,
                     ins_shipment_description = (if description = [] then None else Some description),
                     ins_status = None,
                     ins_tracking_code = None\<rparr> of
               Inl err \<Rightarrow> Inl (toast_error err)
             | Inr db' \<Rightarrow> Inr db'))"

subsection \<open>DELETE\<close>

text \<open>
  Deleting the rows of \<open>reservations\<close> that satisfy \<open>P\<close>: their \<open>status_history\<close> rows go
  with them (\<open>ON DELETE CASCADE\<close>) and \<open>update_available_kilos\<close> fires once for each deleted
  row.
\<close>

fun fire_delete_triggers ::
  "env \<Rightarrow> reservations_row list \<Rightarrow> database \<Rightarrow> pg_error + database" where
  "fire_delete_triggers e [] db = Inr db"
| "fire_delete_triggers e (OLD # rest) db =
     (case update_available_kilos e TG_DELETE OLD db of
        Inl err \<Rightarrow> Inl err
      | Inr db' \<Rightarrow> fire_delete_triggers e rest db')"

definition delete_reservations_where ::
  "env \<Rightarrow> (reservations_row \<Rightarrow> bool) \<Rightarrow> database \<Rightarrow> pg_error + database" where
  "delete_reservations_where e P db =
     (let gone = filter P (reservations db)
      in fire_delete_triggers e gone
           (db\<lparr>reservations := filter (\<lambda>r. \<not> P r) (reservations db),
               status_history :=
                 filter (\<lambda>h. \<not> list_ex (\<lambda>r. res_id r = reservation_id h) gone)
                   (status_history db)\<rparr>))"

text \<open>
  \<open>DELETE FROM reservations WHERE id = rid\<close> sent through the data API by the session
  \<open>uid\<close>: a row is deleted when the \<open>WHERE\<close> clause holds, a \<open>SELECT\<close> policy lets the session
  read it and a \<open>DELETE\<close> policy lets the session delete it. Rows that the policies hide are
  skipped without an error.
\<close>

definition api_delete_reservation ::
  "database \<Rightarrow> uuid option \<Rightarrow> env \<Rightarrow> uuid \<Rightarrow> pg_error + database" where
  "api_delete_reservation db uid e rid =
     delete_reservations_where e
       (\<lambda>r. res_id r = rid
            \<and> using_ok reservations_policies cmd_select db uid r
            \<and> using_ok reservations_policies cmd_delete db uid r) db"


subsection \<open>UPDATE of the status\<close>

text \<open>
  \<open>UPDATE reservations SET status = newStatus WHERE id = rid\<close>, one row: the
  \<open>BEFORE UPDATE\<close> triggers fire in the order of their names
  (\<open>log_reservation_status_change\<close>, then \<open>update_reservations_updated_at\<close>), and the new row
  must pass the update policies (and stay readable, since the statement reads the table).
\<close>

definition update_reservation_row ::
  "env \<Rightarrow> uuid option \<Rightarrow> shipment_status \<Rightarrow> reservations_row \<Rightarrow> database
     \<Rightarrow> pg_error + reservations_row \<times> database" where
  "update_reservation_row e uid newStatus OLD db =
     (let (NEW1, db1) = log_status_change e OLD (OLD\<lparr>res_status := newStatus\<rparr>) db;
          NEW2 = update_updated_at_column_res e NEW1
      in if with_check_ok reservations_policies cmd_update db uid NEW2
            \<and> using_ok reservations_policies cmd_select db uid NEW2
         then Inr (NEW2, db1)
         else Inl rls_violation)"

fun update_status_rows ::
  "env \<Rightarrow> uuid option \<Rightarrow> uuid \<Rightarrow> shipment_status \<Rightarrow> reservations_row list \<Rightarrow> database
     \<Rightarrow> pg_error + reservations_row list \<times> database" where
  "update_status_rows e uid rid newStatus [] db = Inr ([], db)"
| "update_status_rows e uid rid newStatus (r # rs) db =
     (if res_id r = rid
         \<and> using_ok reservations_policies cmd_select db uid r
         \<and> using_ok reservations_policies cmd_update db uid r
      then
        (case update_reservation_row e uid newStatus r db of
           Inl err \<Rightarrow> Inl err
         | Inr (r', db') \<Rightarrow>
             (case update_status_rows e uid rid newStatus rs db' of
                Inl err \<Rightarrow> Inl err
              | Inr (rs', db'') \<Rightarrow> Inr (r' # rs', db'')))
      else
        (case update_status_rows e uid rid newStatus rs db of
           Inl err \<Rightarrow> Inl err
         | Inr (rs', db'') \<Rightarrow> Inr (r # rs', db'')))"

definition update_reservation_status ::
  "database \<Rightarrow> uuid option \<Rightarrow> env \<Rightarrow> uuid \<Rightarrow> shipment_status \<Rightarrow> pg_error + database" where
  "update_reservation_status db uid e rid newStatus =
     (case update_status_rows e uid rid newStatus (reservations db) db of
        Inl err \<Rightarrow> Inl err
      | Inr (rs, db') \<Rightarrow> Inr (db'\<lparr>reservations := rs\<rparr>))"

text \<open>
  \<open>handleUpdateStatus\<close> of the admin dashboard: nothing happens without a selected
  reservation; otherwise the update above is sent with the admin's session.
\<close>

definition handleUpdateStatus ::
  "database \<Rightarrow> uuid option \<Rightarrow> env \<Rightarrow> uuid option \<Rightarrow> shipment_status \<Rightarrow> pg_error + database" where
  "handleUpdateStatus db uid e selectedReservation newStatus =
     (case selectedReservation of
        None \<Rightarrow> Inr db
      | Some rid \<Rightarrow> update_reservation_status db uid e rid newStatus)"

section \<open>Offers: listing and deletion\<close>

text \<open>
  \<open>fetchOffers\<close> of the offers page: the rows of \<open>cargo_offers\<close> the session may read, with
  \<open>is_active = true\<close> and \<open>available_kilos > 0\<close>, by ascending \<open>departure_date\<close>.
\<close>

definition fetchOffers :: "database \<Rightarrow> uuid option \<Rightarrow> cargo_offers_row list" where
  "fetchOffers db uid =
     sort_key departure_date
       (filter (\<lambda>ofr. using_ok cargo_offers_policies cmd_select db uid ofr
                     \<and> is_active ofr = Some True \<and> available_kilos ofr > 0)
          (cargo_offers db))"



section \<open>Lookup by tracking code\<close>

text \<open>
  \<open>String.prototype.trim\<close> and \<open>toUpperCase\<close>, on ASCII text. The characters of the model
  are bytes; on a string of ASCII characters (\<open>is_ascii\<close>) JavaScript strips exactly the
  six white-space characters of \<open>is_space\<close> and changes exactly the letters \<open>a\<close> to \<open>z\<close>.
  On other strings JavaScript also strips Unicode white space and maps letters outside
  ASCII, which the model does not express: what is stated about a lookup is stated for
  ASCII input. The character with code 0 is left out as well: a \<open>text\<close> value of
  PostgreSQL cannot hold it.
\<close>

definition is_ascii :: "string \<Rightarrow> bool" where
  "is_ascii s = list_all (\<lambda>c. 0 < (of_char c :: nat) \<and> (of_char c :: nat) < 128) s"

definition is_space :: "char \<Rightarrow> bool" where
  "is_space c = (c \<in> set [CHR 0x20, CHR 0x09, CHR 0x0A, CHR 0x0B, CHR 0x0C, CHR 0x0D])"

definition trim :: "string \<Rightarrow> string" where
  "trim s = rev (dropWhile is_space (rev (dropWhile is_space s)))"

definition toUpperCase_char :: "char \<Rightarrow> char" where
  "toUpperCase_char c =
     (case map_of (zip ''abcdefghijklmnopqrstuvwxyz'' ''ABCDEFGHIJKLMNOPQRSTUVWXYZ'') c of
        Some u \<Rightarrow> u
      | None \<Rightarrow> c)"

definition toUpperCase :: "string \<Rightarrow> string" where
  "toUpperCase s = map toUpperCase_char s"

text \<open>
  What the \<open>select\<close> of the tracking page returns: seven columns of the reservation and,
  embedded, seven columns of its offer. \<open>user_id\<close> is not among them.
\<close>

record track_offer =
  trk_departure_city :: string
  trk_departure_country :: string
  trk_departure_country_flag :: string
  trk_arrival_city :: string
  trk_arrival_country :: string
  trk_arrival_country_flag :: string
  trk_departure_date :: nat

record track_reservation =
  trk_id :: uuid
  trk_tracking_code :: "string option"
  trk_kilos_reserved :: int
  trk_shipment_description :: "string option"
  trk_status :: shipment_status
  trk_status_updated_at :: timestamp
  trk_created_at :: timestamp
  trk_cargo_offers :: "track_offer option"

definition select_offer :: "cargo_offers_row \<Rightarrow> track_offer" where
  "select_offer ofr =
     \<lparr>trk_departure_city = departure_city ofr,
      trk_departure_country = departure_country ofr,
      trk_departure_country_flag = departure_country_flag ofr,
      trk_arrival_city = arrival_city ofr,
      trk_arrival_country = arrival_country ofr,
      trk_arrival_country_flag = arrival_country_flag ofr,
      trk_departure_date = departure_date ofr\<rparr>"

text \<open>The embedded offer is \<open>null\<close> when the session may not read the offer row.\<close>

definition select_reservation ::
  "database \<Rightarrow> uuid option \<Rightarrow> reservations_row \<Rightarrow> track_reservation" where
  "select_reservation db uid r =
     \<lparr>trk_id = res_id r,
      trk_tracking_code = tracking_code r,
      trk_kilos_reserved = kilos_reserved r,
      trk_shipment_description = shipment_description r,
      trk_status = res_status r,
      trk_status_updated_at = status_updated_at r,
      trk_created_at = res_created_at r,
      trk_cargo_offers =
        map_option select_offer
          (find (\<lambda>ofr. offer_id ofr = cargo_offer_id r
                      \<and> using_ok cargo_offers_policies cmd_select db uid ofr)
             (cargo_offers db))\<rparr>"

datatype search_outcome =
  no_search
  | found track_reservation
  | not_found
  | search_error pg_error

text \<open>
  \<open>handleSearch\<close> of the tracking page, sent with the session \<open>uid\<close> of the visitor
  (\<open>None\<close> for a visitor who is not signed in). \<open>code\<close> is the optional argument,
  \<open>trackingCode\<close> the text of the input field. \<open>maybeSingle\<close> gives \<open>null\<close> for no row, the
  row for one, and an error for more.
\<close>

definition handleSearch ::
  "database \<Rightarrow> uuid option \<Rightarrow> string \<Rightarrow> string option \<Rightarrow> search_outcome" where
  "handleSearch db uid trackingCode code =
     (let searchCode = (case code of None \<Rightarrow> trackingCode
                        | Some c \<Rightarrow> if c = [] then trackingCode else c)
      in if trim searchCode = [] then no_search
         else
           (case filter (\<lambda>r. using_ok reservations_policies cmd_select db uid r
                            \<and> tracking_code r = Some (toUpperCase (trim searchCode)))
                   (reservations db) of
              [] \<Rightarrow> not_found
            | [r] \<Rightarrow> found (select_reservation db uid r)
            | _ \<Rightarrow> search_error multiple_rows))"

section \<open>Sequences of reservations and the kilos they commit\<close>

text \<open>The kilos committed against an offer: the sum of \<open>kilos_reserved\<close> over its rows.\<close>

definition reserved_kilos :: "database \<Rightarrow> uuid \<Rightarrow> int" where
  "reserved_kilos db oid =
     sum_list (map kilos_reserved (filter (\<lambda>r. cargo_offer_id r = oid) (reservations db)))"

definition find_offer :: "database \<Rightarrow> uuid \<Rightarrow> cargo_offers_row option" where
  "find_offer db oid = find (\<lambda>ofr. offer_id ofr = oid) (cargo_offers db)"

definition find_reservation :: "database \<Rightarrow> uuid \<Rightarrow> reservations_row option" where
  "find_reservation db rid = find (\<lambda>r. res_id r = rid) (reservations db)"

text \<open>
  A run of submissions against one offer in which every submission is made from a copy of
  the offer row read just before it (the modal is opened on the row as it is stored).
  A submission that fails changes nothing.
\<close>

record reserve_request =
  req_user :: uuid
  req_kilos :: int
  req_description :: string
  req_env :: env

fun reserve_all :: "database \<Rightarrow> uuid \<Rightarrow> reserve_request list \<Rightarrow> database" where
  "reserve_all db oid [] = db"
| "reserve_all db oid (q # qs) =
     (case find_offer db oid of
        None \<Rightarrow> reserve_all db oid qs
      | Some offer \<Rightarrow>
          (case handleSubmit db (Some (req_user q)) offer (req_kilos q) (req_description q)
                  (req_env q) of
             Inl err \<Rightarrow> reserve_all db oid qs
           | Inr db' \<Rightarrow> reserve_all db' oid qs))"

definition capacity_ok :: "database \<Rightarrow> uuid \<Rightarrow> bool" where
  "capacity_ok db oid =
     (case find_offer db oid of
        None \<Rightarrow> False
      | Some ofr \<Rightarrow>
          0 \<le> available_kilos ofr
          \<and> 0 \<le> reserved_kilos db oid
          \<and> available_kilos ofr + reserved_kilos db oid \<le> total_kilos ofr)"

text \<open>The tracking codes stored in \<open>reservations\<close> (\<open>NULL\<close> left out).\<close>

definition stored_codes :: "database \<Rightarrow> string list" where
  "stored_codes db = List.map_filter tracking_code (reservations db)"


text \<open>The history rows of a reservation that record the status \<open>pending_submission\<close>.\<close>

definition pending_entries :: "database \<Rightarrow> uuid \<Rightarrow> status_history_row list" where
  "pending_entries db rid =
     filter (\<lambda>h. reservation_id h = rid \<and> hist_status h = pending_submission)
       (status_history db)"

text \<open>The tables with the \<open>is_active\<close> flag of every offer replaced by \<open>f\<close> of its id.\<close>

definition with_is_active :: "(uuid \<Rightarrow> bool option) \<Rightarrow> database \<Rightarrow> database" where
  "with_is_active f db =
     db\<lparr>cargo_offers := map (\<lambda>ofr. ofr\<lparr>is_active := f (offer_id ofr)\<rparr>) (cargo_offers db)\<rparr>"

section \<open>Example data\<close>

text \<open>
  An offer of 20 kilos, an offer that is not active and an offer of 50 kilos; two users
  (7 and 8) and an administrator (9).
\<close>

definition offer20 :: cargo_offers_row where
  "offer20 =
     \<lparr>offer_id = 1, departure_city = ''Paris'', departure_country = ''France'',
      departure_country_flag = ''FR'', arrival_city = ''Douala'',
      arrival_country = ''Cameroun'', arrival_country_flag = ''CM'', departure_date = 45,
      total_kilos = 20, available_kilos = 20, price_per_kilo = 5000,
      is_active = Some True, offer_created_at = 0, offer_updated_at = 0\<rparr>"

definition offer_inactive :: cargo_offers_row where
  "offer_inactive = offer20\<lparr>offer_id := 2, is_active := Some False\<rparr>"

definition offer50 :: cargo_offers_row where
  "offer50 = offer20\<lparr>offer_id := 3, total_kilos := 50, available_kilos := 50\<rparr>"

definition db0 :: database where
  "db0 =
     \<lparr>user_roles =
        [\<lparr>role_id = 1, role_user_id = 7, role = user\<rparr>,
         \<lparr>role_id = 2, role_user_id = 8, role = user\<rparr>,
         \<lparr>role_id = 3, role_user_id = 9, role = user\<rparr>,
         \<lparr>role_id = 4, role_user_id = 9, role = admin\<rparr>],
      cargo_offers = [offer20, offer_inactive, offer50],
      reservations = [],
      status_history = []\<rparr>"

text \<open>The surroundings of a statement: time, next id, and one value for every \<open>random()\<close>.\<close>

definition env_at :: "timestamp \<Rightarrow> uuid \<Rightarrow> real \<Rightarrow> env" where
  "env_at t i x = \<lparr>now = t, gen_random_uuid = i, random = (\<lambda>_. x)\<rparr>"

text \<open>After user 7 has reserved 15 kilos of the first offer at time 100.\<close>

definition res15 :: reservations_row where
  "res15 =
     \<lparr>res_id = 11, res_user_id = 7, cargo_offer_id = 1, kilos_reserved = 15,
      shipment_description = Some ''books'', res_status = pending_submission,
      tracking_code = Some ''KG-AAAAAAAA'', status_updated_at = 100,
      res_created_at = 100, res_updated_at = 100\<rparr>"

definition offer5 :: cargo_offers_row where
  "offer5 = offer20\<lparr>available_kilos := 5, offer_updated_at := 100\<rparr>"

definition db1 :: database where
  "db1 =
     db0\<lparr>cargo_offers := [offer5, offer_inactive, offer50],
         reservations := [res15]\<rparr>"

text \<open>An insert by user 8 that brings its own tracking code, and the tables after it.\<close>

definition own_code_insert :: reservations_insert where
  "own_code_insert =
     \<lparr>ins_user_id = 8, ins_cargo_offer_id = 1, ins_kilos_reserved = 2,
      ins_shipment_description = None, ins_status = None,
      ins_tracking_code = Some ''my code''\<rparr>"

definition db_own_code :: database where
  "db_own_code =
     db1\<lparr>cargo_offers :=
           [offer20\<lparr>available_kilos := 3, offer_updated_at := 300\<rparr>, offer_inactive, offer50],
         reservations :=
           [res15,
            \<lparr>res_id = 13, res_user_id = 8, cargo_offer_id = 1, kilos_reserved = 2,
             shipment_description = None, res_status = pending_submission,
             tracking_code = Some ''my code'', status_updated_at = 300,
             res_created_at = 300, res_updated_at = 300\<rparr>]\<rparr>"




text \<open>
  User 8 opened the modal on the first offer while it still had 20 kilos (\<open>offer20\<close>) and
  submits 10 kilos after user 7's reservation has left 5.
\<close>

definition res10 :: reservations_row where
  "res10 =
     \<lparr>res_id = 13, res_user_id = 8, cargo_offer_id = 1, kilos_reserved = 10,
      shipment_description = None, res_status = pending_submission,
      tracking_code = Some ''KG-SSSSSSSS'', status_updated_at = 300,
      res_created_at = 300, res_updated_at = 300\<rparr>"

definition db_oversold :: database where
  "db_oversold =
     db1\<lparr>cargo_offers :=
           [offer20\<lparr>available_kilos := - 5, offer_updated_at := 300\<rparr>, offer_inactive, offer50],
         reservations := [res15, res10]\<rparr>"

text \<open>User 8 submits 5 kilos from a modal opened on the current row (\<open>offer5\<close>).\<close>

definition db_full :: database where
  "db_full =
     db1\<lparr>cargo_offers :=
           [offer20\<lparr>available_kilos := 0, offer_updated_at := 300\<rparr>, offer_inactive, offer50],
         reservations := [res15, res10\<lparr>kilos_reserved := 5\<rparr>]\<rparr>"

text \<open>User 7 reserves 5 kilos of the offer that is not active.\<close>

definition db_inactive_reserved :: database where
  "db_inactive_reserved =
     db0\<lparr>cargo_offers :=
           [offer20, offer_inactive\<lparr>available_kilos := 15, offer_updated_at := 100\<rparr>, offer50],
         reservations :=
           [res15\<lparr>cargo_offer_id := 2, kilos_reserved := 5, shipment_description := None\<rparr>]\<rparr>"

text \<open>Reservation 11 with the tracking code of the lookup scenario.\<close>

definition res_ab :: reservations_row where
  "res_ab = res15\<lparr>tracking_code := Some ''KG-AB12CD34''\<rparr>"

definition db_ab :: database where
  "db_ab = db1\<lparr>reservations := [res_ab]\<rparr>"

text \<open>
  Three submissions against the first offer, each from the current row: 15 kilos by user 7,
  then 10 kilos and 5 kilos by user 8.
\<close>

definition requests :: "reserve_request list" where
  "requests =
     [\<lparr>req_user = 7, req_kilos = 15, req_description = ''books'', req_env = env_at 100 11 0\<rparr>,
      \<lparr>req_user = 8, req_kilos = 10, req_description = [], req_env = env_at 300 13 (1 / 2)\<rparr>,
      \<lparr>req_user = 8, req_kilos = 5, req_description = [], req_env = env_at 300 13 (1 / 2)\<rparr>]"

section \<open>The tracking-code generator\<close>

lemma upt_1_9: "[1..<9] = [1,2,3,4,5,6,7,8::nat]"
  by (simp add: upt_rec)

lemma gtc_unfold: "generate_tracking_code rnd = ''KG-'' @ pick (rnd 1) @ pick (rnd 2) @ pick (rnd 3) @ pick (rnd 4) @ pick (rnd 5) @ pick (rnd 6) @ pick (rnd 7) @ pick (rnd 8)"
  unfolding generate_tracking_code_def upt_1_9 by simp

lemma length_chars: "length chars = 36" by (simp add: chars_def)


text \<open>Rounding to 53 significant bits.\<close>

declare bit_length.simps [simp del]











lemma pick_eval:
  "pick r =
     substr chars (int (round53 (round53 (36 * nat \<lfloor>r * 2 ^ 53\<rfloor>) + 2 ^ 53) div 2 ^ 53)) 1"
  by (simp add: pick_def Let_def length_chars)






section \<open>Facts about the statements\<close>

lemmas rls_defs =
  with_check_ok_def using_ok_def applies_def reservations_policies_def cargo_offers_policies_def

lemmas example_defs =
  db0_def db1_def res15_def offer5_def offer20_def offer_inactive_def offer50_def env_at_def

lemma no_delete_policy: "using_ok reservations_policies cmd_delete db uid r = False"
  by (simp add: rls_defs)

lemma insert_check:
  "with_check_ok reservations_policies cmd_insert db uid r = (uid = Some (res_user_id r))"
  by (simp add: rls_defs)

lemma set_available_kilos_InrD:
  assumes "set_available_kilos e oid f db = Inr db'"
  shows "db' = db\<lparr>cargo_offers := map (set_kilos_row e oid f) (cargo_offers db)\<rparr>"
    and "\<not> list_ex (\<lambda>ofr. offer_id ofr = oid \<and> \<not> int4_ok (f (available_kilos ofr)))
             (cargo_offers db)"
  using assms by (auto simp: set_available_kilos_def split: if_splits)

lemma set_tracking_code_simps [simp]:
  "res_id (set_tracking_code e r) = res_id r"
  "res_user_id (set_tracking_code e r) = res_user_id r"
  "cargo_offer_id (set_tracking_code e r) = cargo_offer_id r"
  "kilos_reserved (set_tracking_code e r) = kilos_reserved r"
  "res_status (set_tracking_code e r) = res_status r"
  by (simp_all add: set_tracking_code_def)

lemma new_row_simps [simp]:
  "res_id (new_row e p) = gen_random_uuid e"
  "res_user_id (new_row e p) = ins_user_id p"
  "cargo_offer_id (new_row e p) = ins_cargo_offer_id p"
  "kilos_reserved (new_row e p) = ins_kilos_reserved p"
  "tracking_code (new_row e p) = ins_tracking_code p"
  "res_status (new_row e p) = (case ins_status p of None \<Rightarrow> pending_submission | Some s \<Rightarrow> s)"
  by (simp_all add: new_row_def)

text \<open>What a successful insert has checked and what it has written.\<close>

lemma insert_reservation_InrD:
  assumes "insert_reservation db uid e p = Inr db'"
  shows "int4_ok (ins_kilos_reserved p)"
    and "uid = Some (ins_user_id p)"
    and "\<not> list_ex (\<lambda>r. res_id r = gen_random_uuid e) (reservations db)"
    and "\<not> list_ex (\<lambda>r. tracking_code r \<noteq> None
                    \<and> tracking_code r = tracking_code (set_tracking_code e (new_row e p)))
             (reservations db)"
    and "list_ex (\<lambda>ofr. offer_id ofr = ins_cargo_offer_id p) (cargo_offers db)"
    and "db' = db\<lparr>reservations := reservations db @ [set_tracking_code e (new_row e p)],
                  cargo_offers :=
                    map (set_kilos_row e (ins_cargo_offer_id p) (\<lambda>a. a - ins_kilos_reserved p))
                      (cargo_offers db)\<rparr>"
    and "\<not> list_ex (\<lambda>ofr. offer_id ofr = ins_cargo_offer_id p
                      \<and> \<not> int4_ok (available_kilos ofr - ins_kilos_reserved p))
             (cargo_offers db)"
proof -
  let ?NEW = "set_tracking_code e (new_row e p)"
  from assms have a: "int4_ok (ins_kilos_reserved p)"
    by (simp add: insert_reservation_def split: if_splits)
  from assms a have b: "uid = Some (ins_user_id p)"
    by (simp add: insert_reservation_def Let_def insert_check split: if_splits)
  from assms a b have c: "\<not> list_ex (\<lambda>r. res_id r = gen_random_uuid e) (reservations db)"
    by (simp add: insert_reservation_def Let_def insert_check split: if_splits)
  from assms a b c
  have d: "\<not> list_ex (\<lambda>r. tracking_code r \<noteq> None \<and> tracking_code r = tracking_code ?NEW)
               (reservations db)"
    by (simp add: insert_reservation_def Let_def insert_check split: if_splits)
  from assms a b c d
  have f: "list_ex (\<lambda>ofr. offer_id ofr = ins_cargo_offer_id p) (cargo_offers db)"
    by (simp add: insert_reservation_def Let_def insert_check split: if_splits)
  from assms a b c d f
  have g: "set_available_kilos e (ins_cargo_offer_id p) (\<lambda>a. a - ins_kilos_reserved p)
             (db\<lparr>reservations := reservations db @ [?NEW]\<rparr>) = Inr db'"
    by (simp add: insert_reservation_def Let_def insert_check update_available_kilos_def)
  show "int4_ok (ins_kilos_reserved p)" by (rule a)
  show "uid = Some (ins_user_id p)" by (rule b)
  show "\<not> list_ex (\<lambda>r. res_id r = gen_random_uuid e) (reservations db)" by (rule c)
  show "\<not> list_ex (\<lambda>r. tracking_code r \<noteq> None \<and> tracking_code r = tracking_code ?NEW)
            (reservations db)" by (rule d)
  show "list_ex (\<lambda>ofr. offer_id ofr = ins_cargo_offer_id p) (cargo_offers db)" by (rule f)
  from set_available_kilos_InrD[OF g]
  show "db' = db\<lparr>reservations := reservations db @ [?NEW],
                  cargo_offers :=
                    map (set_kilos_row e (ins_cargo_offer_id p) (\<lambda>a. a - ins_kilos_reserved p))
                      (cargo_offers db)\<rparr>"
    and "\<not> list_ex (\<lambda>ofr. offer_id ofr = ins_cargo_offer_id p
                      \<and> \<not> int4_ok (available_kilos ofr - ins_kilos_reserved p))
             (cargo_offers db)"
    by simp_all
qed

lemmas eval_defs =
  handleSubmit_def insert_reservation_def new_row_def set_tracking_code_def rls_defs
  update_available_kilos_def set_available_kilos_def set_kilos_row_def
  update_updated_at_column_def int4_ok_def has_role_def


lemma index_0: "round53 (round53 0 + 9007199254740992) div 9007199254740992 = 1"
  by (simp add: round53_def bit_length.simps Let_def)

lemma index_half:
  "round53 (round53 162129586585337856 + 9007199254740992) div 9007199254740992 = 19"
  by (simp add: round53_def bit_length.simps Let_def)

text \<open>
  Rounding is visible next to a multiple of \<open>1 / 36\<close>: the result below is less than
  \<open>17 / 36\<close>, its product with 36 rounds to 17, and the symbol is number 17 (\<open>R\<close>), not
  number 16 (\<open>Q\<close>).
\<close>

lemma boundary_index:
  "round53 (round53 153122387330596860 + 9007199254740992) div 9007199254740992 = 18"
  by (simp add: round53_def bit_length.simps Let_def)

lemma boundary_example:
  "real 4253399648072135 / 2 ^ 53 < 17 / 36 \<and> pick (real 4253399648072135 / 2 ^ 53) = ''R''"
  by (simp add: pick_eval boundary_index substr_def chars_def)

lemma pick_0: "pick 0 = ''A''"
  by (simp add: pick_eval index_0 substr_def chars_def)

lemma pick_half: "pick (1 / 2) = ''S''"
  by (simp add: pick_eval index_half substr_def chars_def)

lemma first_reservation:
  "handleSubmit db0 (Some 7) offer20 15 ''books'' (env_at 100 11 0) = Inr db1"
  by (simp add: example_defs eval_defs gtc_unfold pick_0)

lemmas example_defs3 = res10_def db_oversold_def db_full_def db_inactive_reserved_def

lemma stale_reservation:
  "handleSubmit db1 (Some 8) offer20 10 [] (env_at 300 13 (1 / 2)) = Inr db_oversold"
  by (simp add: example_defs example_defs3 eval_defs gtc_unfold pick_half)

lemma fresh_reservation:
  "handleSubmit db1 (Some 8) offer5 5 [] (env_at 300 13 (1 / 2)) = Inr db_full"
  by (simp add: example_defs example_defs3 eval_defs gtc_unfold pick_half)

lemma inactive_reservation:
  "handleSubmit db0 (Some 7) offer_inactive 5 [] (env_at 100 11 0) = Inr db_inactive_reserved"
  by (simp add: example_defs example_defs3 eval_defs gtc_unfold pick_0)



lemma in_map_filter:
  "c \<in> set (List.map_filter f xs) \<longleftrightarrow> list_ex (\<lambda>r. f r = Some c) xs"
  by (induction xs) (auto split: option.splits)



lemma own_code_insert_result:
  "insert_reservation db1 (Some 8) (env_at 300 13 0) own_code_insert = Inr db_own_code"
  by (simp add: own_code_insert_def db_own_code_def example_defs eval_defs)

lemma handleSubmit_InrD:
  assumes "handleSubmit db usr offer kilos description e = Inr db'"
  shows "\<exists>u. usr = Some u \<and> 1 \<le> kilos \<and> kilos \<le> available_kilos offer
           \<and> insert_reservation db usr e
                \<lparr>ins_user_id = u, ins_cargo_offer_id = offer_id offer, ins_kilos_reserved = kilos,
                 ins_shipment_description = (if description = [] then None else Some description),
                 ins_status = None, ins_tracking_code = None\<rparr> = Inr db'"
  using assms by (auto simp: handleSubmit_def split: option.splits if_splits sum.splits)

lemma set_kilos_row_simps [simp]:
  "offer_id (set_kilos_row e oid f ofr) = offer_id ofr"
  "available_kilos (set_kilos_row e oid f ofr) =
     (if offer_id ofr = oid then f (available_kilos ofr) else available_kilos ofr)"
  "total_kilos (set_kilos_row e oid f ofr) = total_kilos ofr"
  "is_active (set_kilos_row e oid f ofr) = is_active ofr"
  by (simp_all add: set_kilos_row_def update_updated_at_column_def)


text \<open>An administrator passes every \<open>SELECT\<close> and \<open>UPDATE\<close> policy of \<open>reservations\<close>.\<close>

lemma admin_policies:
  assumes "has_role db uid admin"
  shows "using_ok reservations_policies cmd_select db uid r"
    and "using_ok reservations_policies cmd_update db uid r"
    and "with_check_ok reservations_policies cmd_update db uid r"
  using assms by (simp_all add: rls_defs)

lemma update_status_rows_other:
  "\<forall>x \<in> set xs. res_id x \<noteq> rid \<Longrightarrow> update_status_rows e uid rid s xs db = Inr (xs, db)"
  by (induction xs) simp_all

lemma update_reservation_row_admin:
  assumes "has_role db uid admin"
  shows "update_reservation_row e uid s r db =
           Inr (if res_status r \<noteq> s
                then (r\<lparr>res_status := s, status_updated_at := now e, res_updated_at := now e\<rparr>,
                      db\<lparr>status_history := status_history db @
                           [\<lparr>hist_id = gen_random_uuid e, reservation_id = res_id r,
                             hist_status = s, hist_notes = None, hist_created_at = now e\<rparr>]\<rparr>)
                else (r\<lparr>res_updated_at := now e\<rparr>, db))"
  using admin_policies[OF assms]
  by (simp add: update_reservation_row_def log_status_change_def update_updated_at_column_res_def)

lemma update_status_rows_admin:
  assumes "has_role db uid admin"
      and "\<forall>x \<in> set pre \<union> set post. res_id x \<noteq> res_id r"
  shows "update_status_rows e uid (res_id r) s (pre @ r # post) db =
           (case update_reservation_row e uid s r db of
              Inl err \<Rightarrow> Inl err
            | Inr (r', db') \<Rightarrow> Inr (pre @ r' # post, db'))"
  using assms
proof (induction pre)
  case Nil
  then show ?case
    by (simp add: admin_policies update_status_rows_other split: sum.splits prod.splits)
next
  case (Cons a pre)
  then show ?case by (simp split: sum.splits prod.splits)
qed

lemma list_ex_map: "list_ex P (map g xs) = list_ex (\<lambda>x. P (g x)) xs"
  by (induction xs) simp_all

text \<open>No step of the insert reads \<open>is_active\<close>.\<close>

lemma insert_reservation_ignores_is_active:
  "insert_reservation (with_is_active f db) uid e p =
     map_sum id (with_is_active f) (insert_reservation db uid e p)"
  by (simp add: insert_reservation_def with_is_active_def Let_def insert_check list_ex_map
        update_available_kilos_def set_available_kilos_def set_kilos_row_def
        update_updated_at_column_def comp_def)

lemma find_set_kilos_row:
  "find (\<lambda>ofr. offer_id ofr = oid) (map (set_kilos_row e oid' f) xs) =
     map_option (set_kilos_row e oid' f) (find (\<lambda>ofr. offer_id ofr = oid) xs)"
  by (induction xs) simp_all

lemma find_offer_id: "find_offer db oid = Some ofr \<Longrightarrow> offer_id ofr = oid"
  by (auto simp: find_offer_def find_Some_iff)

text \<open>One submission from the current row keeps the offer within its capacity.\<close>

lemma handleSubmit_capacity_ok:
  assumes sub: "handleSubmit db (Some u) offer kilos description e = Inr db'"
      and cur: "find_offer db oid = Some offer"
      and ok: "capacity_ok db oid"
  shows "capacity_ok db' oid"
proof -
  from find_offer_id[OF cur] have oid: "offer_id offer = oid" .
  from handleSubmit_InrD[OF sub] obtain p where
    k: "1 \<le> kilos" "kilos \<le> available_kilos offer"
    and p: "ins_cargo_offer_id p = oid" "ins_kilos_reserved p = kilos"
    and ins: "insert_reservation db (Some u) e p = Inr db'"
    using oid by force
  note D = insert_reservation_InrD(6)[OF ins]
  have f: "find_offer db' oid = Some (set_kilos_row e oid (\<lambda>a. a - kilos) offer)"
    using cur by (simp add: D find_offer_def find_set_kilos_row p)
  have r: "reserved_kilos db' oid = reserved_kilos db oid + kilos"
    by (simp add: D reserved_kilos_def p)
  from ok cur k show ?thesis
    by (simp add: capacity_ok_def f r oid)
qed

lemma reserve_all_capacity_ok:
  "capacity_ok db oid \<Longrightarrow> capacity_ok (reserve_all db oid qs) oid"
proof (induction qs arbitrary: db)
  case Nil
  then show ?case by simp
next
  case (Cons q qs)
  show ?case
  proof (cases "find_offer db oid")
    case None
    with Cons show ?thesis by simp
  next
    case (Some offer)
    show ?thesis
    proof (cases "handleSubmit db (Some (req_user q)) offer (req_kilos q) (req_description q)
                    (req_env q)")
      case (Inl err)
      with Some Cons show ?thesis by simp
    next
      case (Inr db')
      from handleSubmit_capacity_ok[OF Inr Some Cons.prems] have "capacity_ok db' oid" .
      from Cons.IH[OF this] Some Inr show ?thesis by simp
    qed
  qed
qed

lemma requests_run: "reserve_all db0 1 requests = db_full"
proof -
  have a: "find_offer db0 1 = Some offer20" "find_offer db1 1 = Some offer5"
    by (simp_all add: find_offer_def example_defs)
  have c: "handleSubmit db1 (Some 8) offer5 10 [] (env_at 300 13 (1 / 2)) = Inl toast_invalid_kilos"
    by (simp add: handleSubmit_def offer5_def offer20_def)
  show ?thesis
    by (simp add: requests_def a c first_reservation fresh_reservation del: One_nat_def)
qed

text \<open>Facts about the lookup by tracking code.\<close>

lemmas search_defs = handleSearch_def trim_def is_space_def toUpperCase_def toUpperCase_char_def
lemmas example_defs4 = res_ab_def db_ab_def

lemma upper_example: "toUpperCase (trim ''  kg-ab12cd34 '') = ''KG-AB12CD34''"
  by (simp add: search_defs)

lemma readable:
  "using_ok reservations_policies cmd_select db uid r =
     (uid = Some (res_user_id r) \<or> has_role db uid admin)"
  by (simp add: rls_defs)

lemma unique_code_filter:
  "distinct (List.map_filter f xs) \<Longrightarrow> r \<in> set xs \<Longrightarrow> f r = Some c
     \<Longrightarrow> filter (\<lambda>x. f x = Some c) xs = [r]"
proof (induction xs)
  case Nil
  then show ?case by simp
next
  case (Cons x xs)
  show ?case
  proof (cases "f x = Some c")
    case True
    with Cons.prems(1) have "c \<notin> set (List.map_filter f xs)" by simp
    then have no: "\<forall>y \<in> set xs. f y \<noteq> Some c" by (simp add: in_map_filter list_ex_iff)
    with Cons.prems(2,3) have "r = x" by auto
    moreover from no have "filter (\<lambda>x. f x = Some c) xs = []" by (simp add: filter_empty_conv)
    ultimately show ?thesis using True by simp
  next
    case False
    with Cons.prems have "r \<in> set xs" "distinct (List.map_filter f xs)"
      by (auto split: option.splits)
    from Cons.IH[OF this(2,1) Cons.prems(3)] False show ?thesis by simp
  qed
qed

lemma find_conj: "find P xs = Some x \<Longrightarrow> Q x \<Longrightarrow> find (\<lambda>y. P y \<and> Q y) xs = Some x"
  by (induction xs) (auto split: if_splits)

lemma handleSearch_found:
  assumes "trim searchCode \<noteq> []"
      and "distinct (stored_codes db)"
      and "r \<in> set (reservations db)"
      and "tracking_code r = Some (toUpperCase (trim searchCode))"
      and "uid = Some (res_user_id r) \<or> has_role db uid admin"
  shows "handleSearch db uid searchCode None = found (select_reservation db uid r)"
proof -
  let ?c = "toUpperCase (trim searchCode)"
  have "filter (\<lambda>x. using_ok reservations_policies cmd_select db uid x \<and> tracking_code x = Some ?c)
          (reservations db)
        = filter (\<lambda>x. uid = Some (res_user_id x) \<or> has_role db uid admin)
            (filter (\<lambda>x. tracking_code x = Some ?c) (reservations db))"
    by (simp add: readable conj_commute)
  also have "\<dots> = [r]"
    using unique_code_filter[OF assms(2)[unfolded stored_codes_def] assms(3,4)] assms(5)
    by simp
  finally show ?thesis using assms(1) by (simp add: handleSearch_def)
qed

lemma handleSearch_miss:
  assumes "trim searchCode \<noteq> []"
      and "\<not> list_ex (\<lambda>x. (uid = Some (res_user_id x) \<or> has_role db uid admin)
                        \<and> tracking_code x = Some (toUpperCase (trim searchCode)))
               (reservations db)"
  shows "handleSearch db uid searchCode None = not_found"
proof -
  from assms(2)
  have "filter (\<lambda>x. using_ok reservations_policies cmd_select db uid x
                   \<and> tracking_code x = Some (toUpperCase (trim searchCode)))
          (reservations db) = []"
    by (simp add: readable filter_empty_conv list_ex_iff)
  with assms(1) show ?thesis by (simp add: handleSearch_def)
qed

lemma handleSearch_anonymous:
  "handleSearch db None trackingCode code = no_search
   \<or> handleSearch db None trackingCode code = not_found"
proof -
  have "\<And>c. filter (\<lambda>x. using_ok reservations_policies cmd_select db None x
                   \<and> tracking_code x = Some c) (reservations db) = []"
    by (simp add: readable has_role_def filter_empty_conv)
  then show ?thesis by (simp add: handleSearch_def Let_def)
qed

lemma select_reservation_offer:
  assumes "find_offer db (cargo_offer_id r) = Some ofr"
      and "is_active ofr = Some True \<or> has_role db uid admin"
  shows "trk_cargo_offers (select_reservation db uid r) = Some (select_offer ofr)"
proof -
  have "using_ok cargo_offers_policies cmd_select db uid ofr" using assms(2) by (auto simp: rls_defs)
  from find_conj[OF assms(1)[unfolded find_offer_def], of "using_ok cargo_offers_policies cmd_select db uid", OF this]
  show ?thesis by (simp add: select_reservation_def)
qed

section \<open>Claims\<close>

subsection \<open>C1: capacity is kept by submissions made from the current row\<close>

text \<open>
  Claim C1, as stated, wants \<open>0 \<le> available_kilos \<le> total_kilos\<close> at all times and the
  committed kilos never above \<open>total_kilos\<close>. The tables have no \<open>CHECK\<close> constraint and
  the trigger subtracts whatever is inserted. In the example two successful reservations,
  of 15 and of 10 kilos, the second from a modal opened before the first was made, leave
  the 20-kilo offer with \<open>available_kilos = - 5\<close> and 25 kilos committed.
\<close>

theorem capacity_exceeded_counterexample:
  "handleSubmit db0 (Some 7) offer20 15 ''books'' (env_at 100 11 0) = Inr db1
   \<and> handleSubmit db1 (Some 8) offer20 10 [] (env_at 300 13 (1 / 2)) = Inr db_oversold
   \<and> map_option available_kilos (find_offer db_oversold 1) = Some (- 5)
   \<and> map_option total_kilos (find_offer db_oversold 1) = Some 20
   \<and> reserved_kilos db_oversold 1 = 25"
  using first_reservation stale_reservation
  by (simp add: find_offer_def reserved_kilos_def example_defs example_defs3)

text \<open>
  Claim C1, amended. Take an offer with \<open>0 \<le> available_kilos\<close> whose committed kilos are
  not negative and fit, together with \<open>available_kilos\<close>, into \<open>total_kilos\<close>. After any run
  of submissions in which every modal is opened on the offer row as it is stored at that
  moment, the offer still has \<open>0 \<le> available_kilos \<le> total_kilos\<close>, and the kilos
  committed against it do not exceed \<open>total_kilos\<close>.
\<close>

theorem fresh_reserves_keep_capacity:
  assumes "capacity_ok db oid"
  shows "\<exists>ofr. find_offer (reserve_all db oid qs) oid = Some ofr
           \<and> 0 \<le> available_kilos ofr
           \<and> available_kilos ofr \<le> total_kilos ofr
           \<and> reserved_kilos (reserve_all db oid qs) oid \<le> total_kilos ofr"
  using reserve_all_capacity_ok[OF assms, of qs]
  by (auto simp: capacity_ok_def split: option.splits)

text \<open>
  The three submissions of the example, each from the current row: the second is rejected,
  the offer ends with 0 kilos available and 20 committed.
\<close>

theorem fresh_reserves_keep_capacity_witness:
  "capacity_ok db0 1
   \<and> reserve_all db0 1 requests = db_full
   \<and> reserved_kilos db_full 1 = 20
   \<and> (\<exists>ofr. find_offer db_full 1 = Some ofr
          \<and> 0 \<le> available_kilos ofr
          \<and> available_kilos ofr \<le> total_kilos ofr
          \<and> reserved_kilos db_full 1 \<le> total_kilos ofr)"
proof -
  have a: "capacity_ok db0 1"
    by (simp add: capacity_ok_def find_offer_def reserved_kilos_def example_defs)
  have b: "reserved_kilos db_full 1 = 20"
    by (simp add: reserved_kilos_def example_defs example_defs3)
  from fresh_reserves_keep_capacity [OF a, of requests] a b requests_run
  show ?thesis by simp
qed

subsection \<open>C2: the capacity test reads the modal's copy of the offer\<close>

text \<open>
  Claim C2, as stated, wants a reservation to fail whenever \<open>kilos\<close> exceeds the current
  \<open>available_kilos\<close>, the test being made again when the row is written. The only test is
  the one \<open>handleSubmit\<close> makes against the copy of the offer the modal was opened with; the
  insert and its trigger subtract without comparing. In the example the first offer has 5
  kilos left; user 8, whose modal still shows 20, reserves 10, and the offer is left with
  \<open>- 5\<close>.
\<close>

theorem stale_copy_oversells_counterexample:
  "find_offer db1 1 = Some offer5
   \<and> available_kilos offer5 = 5
   \<and> handleSubmit db1 (Some 8) offer20 10 [] (env_at 300 13 (1 / 2)) = Inr db_oversold
   \<and> map available_kilos (cargo_offers db_oversold) = [- 5, 20, 50]"
  using stale_reservation by (simp add: find_offer_def example_defs example_defs3)

text \<open>
  Claim C2, amended. A submission by a signed-in user is rejected, before anything is sent,
  whenever \<open>kilos\<close> exceeds the \<open>available_kilos\<close> of the copy of the offer the modal was
  opened with; the rejection is the form's message, not a typed error. When each modal is
  opened on the current row the scenario runs as described: from 20 kilos, reserving 15
  succeeds and leaves 5; reserving 10 is rejected; reserving 5 succeeds and leaves 0.
\<close>

theorem reserve_checks_the_copy:
  "(kilos > available_kilos offer \<longrightarrow>
      handleSubmit db (Some u) offer kilos description e = Inl toast_invalid_kilos)
   \<and> find_offer db0 1 = Some offer20 \<and> available_kilos offer20 = 20
   \<and> handleSubmit db0 (Some 7) offer20 15 ''books'' (env_at 100 11 0) = Inr db1
   \<and> find_offer db1 1 = Some offer5 \<and> available_kilos offer5 = 5
   \<and> handleSubmit db1 (Some 8) offer5 10 [] (env_at 300 13 (1 / 2)) = Inl toast_invalid_kilos
   \<and> handleSubmit db1 (Some 8) offer5 5 [] (env_at 300 13 (1 / 2)) = Inr db_full
   \<and> map_option available_kilos (find_offer db_full 1) = Some 0"
proof -
  have a: "kilos > available_kilos offer \<longrightarrow>
      handleSubmit db (Some u) offer kilos description e = Inl toast_invalid_kilos"
    by (simp add: handleSubmit_def)
  have b: "find_offer db0 1 = Some offer20" "available_kilos offer20 = 20"
    "find_offer db1 1 = Some offer5" "available_kilos offer5 = 5"
    "map_option available_kilos (find_offer db_full 1) = Some 0"
    by (simp_all add: find_offer_def example_defs example_defs3)
  have c: "handleSubmit db1 (Some 8) offer5 10 [] (env_at 300 13 (1 / 2)) = Inl toast_invalid_kilos"
    by (simp add: handleSubmit_def offer5_def offer20_def)
  from a b c first_reservation fresh_reservation show ?thesis by simp
qed

theorem reserve_checks_the_copy_witness:
  "(10::int) > available_kilos offer5
   \<and> handleSubmit db1 (Some 8) offer5 10 [] (env_at 300 13 (1 / 2)) = Inl toast_invalid_kilos"
  using reserve_checks_the_copy
          [where kilos = 10 and offer = offer5 and db = db1 and u = 8 and description = "[]"
             and e = "env_at 300 13 (1 / 2)"]
  by (simp add: offer5_def offer20_def)

subsection \<open>C3: no history row is written when a reservation is created\<close>

text \<open>
  Claim C3, as stated, wants exactly one history row with status \<open>pending_submission\<close> for
  a reservation at its creation. The trigger \<open>log_status_change\<close> fires
  \<open>BEFORE UPDATE\<close>; an insert fires \<open>set_tracking_code\<close> and \<open>update_available_kilos\<close>
  only, and \<open>handleSubmit\<close> sends nothing but the insert. In the example, reservation 11
  has been created and has no such row.
\<close>

theorem no_history_row_at_creation_counterexample:
  "handleSubmit db0 (Some 7) offer20 15 ''books'' (env_at 100 11 0) = Inr db1
   \<and> find_reservation db1 11 = Some res15
   \<and> length (pending_entries db1 11) = 0"
  using first_reservation
  by (simp add: find_reservation_def pending_entries_def example_defs)

text \<open>
  Claim C3, amended. A successful reservation leaves \<open>status_history\<close> exactly as it was:
  it stores the new row, with status \<open>pending_submission\<close>, and writes no history row for
  it.
\<close>

theorem reserve_writes_no_history:
  assumes "handleSubmit db usr offer kilos description e = Inr db'"
  shows "status_history db' = status_history db
         \<and> pending_entries db' (gen_random_uuid e) = pending_entries db (gen_random_uuid e)
         \<and> (\<exists>r. reservations db' = reservations db @ [r] \<and> res_id r = gen_random_uuid e
                \<and> res_status r = pending_submission)"
proof -
  from handleSubmit_InrD[OF assms] obtain u where
    ins: "insert_reservation db usr e
            \<lparr>ins_user_id = u, ins_cargo_offer_id = offer_id offer, ins_kilos_reserved = kilos,
             ins_shipment_description = (if description = [] then None else Some description),
             ins_status = None, ins_tracking_code = None\<rparr> = Inr db'"
    by blast
  note D = insert_reservation_InrD(6)[OF ins]
  show ?thesis by (simp add: D pending_entries_def)
qed

theorem reserve_writes_no_history_witness:
  "handleSubmit db0 (Some 7) offer20 15 ''books'' (env_at 100 11 0) = Inr db1
   \<and> status_history db1 = [] \<and> pending_entries db1 11 = []
   \<and> (\<exists>r. reservations db1 = [r] \<and> res_id r = 11 \<and> res_status r = pending_submission)"
proof -
  have a: "status_history db0 = []" "reservations db0 = []" "pending_entries db0 11 = []"
    "gen_random_uuid (env_at 100 11 0) = 11"
    by (simp_all add: pending_entries_def example_defs)
  from reserve_writes_no_history [OF first_reservation] first_reservation a
  show ?thesis by auto
qed

subsection \<open>C4: a reservation does not look at \<open>is_active\<close>\<close>

text \<open>
  Claim C4, as stated, wants every reservation on an offer with \<open>is_active = false\<close> to
  fail. Neither \<open>handleSubmit\<close> nor the insert policy nor a trigger reads the flag. In the
  example the second offer is not active and user 7 reserves 5 of its kilos.
\<close>

theorem reserve_on_inactive_offer_counterexample:
  "find_offer db0 2 = Some offer_inactive
   \<and> is_active offer_inactive = Some False
   \<and> handleSubmit db0 (Some 7) offer_inactive 5 [] (env_at 100 11 0) = Inr db_inactive_reserved"
  using inactive_reservation by (simp add: find_offer_def example_defs)

text \<open>
  Claim C4, amended. The offers page lists active offers only, and the outcome of a
  reservation does not depend on \<open>is_active\<close>: success or failure, it is the same whatever
  the flags of the stored offers and of the modal's copy are.
\<close>

theorem reserve_ignores_is_active:
  "list_all (\<lambda>ofr. is_active ofr = Some True) (fetchOffers db uid)
   \<and> handleSubmit (with_is_active f db) usr (offer\<lparr>is_active := b\<rparr>) kilos description e =
       map_sum id (with_is_active f) (handleSubmit db usr offer kilos description e)"
  by (simp add: handleSubmit_def insert_reservation_ignores_is_active fetchOffers_def list_all_iff
        split: option.splits sum.splits)

text \<open>
  The offers page of a visitor lists the two active offers; the reservation of the example
  has the same outcome when every offer is made active.
\<close>

theorem reserve_ignores_is_active_witness:
  "fetchOffers db0 None = [offer20, offer50]
   \<and> handleSubmit db0 (Some 7) offer_inactive 5 [] (env_at 100 11 0) = Inr db_inactive_reserved
   \<and> handleSubmit (with_is_active (\<lambda>i. Some True) db0) (Some 7)
         (offer_inactive\<lparr>is_active := Some True\<rparr>) 5 [] (env_at 100 11 0) =
       Inr (with_is_active (\<lambda>i. Some True) db_inactive_reserved)"
proof -
  have a: "fetchOffers db0 None = [offer20, offer50]"
    by (simp add: fetchOffers_def example_defs rls_defs has_role_def)
  from reserve_ignores_is_active
         [where db = db0 and uid = None and f = "\<lambda>i. Some True" and usr = "Some 7"
            and offer = offer_inactive and b = "Some True" and kilos = 5 and description = "[]"
            and e = "env_at 100 11 0"]
       inactive_reservation a
  show ?thesis by simp
qed

subsection \<open>C5: the lookup by tracking code reads what the session may read\<close>

text \<open>
  Claim C5, as stated, wants a lookup open to visitors who are not signed in. The page
  sends the query with the visitor's session, and the \<open>SELECT\<close> policies of \<open>reservations\<close>
  show a row to its owner and to administrators only. In the example reservation 11 has
  the code \<open>KG-AB12CD34\<close>, and a visitor without a session who looks up \<open>kg-ab12cd34\<close> gets
  \<open>not found\<close>.
\<close>

theorem anonymous_lookup_counterexample:
  "find_reservation db_ab 11 = Some res_ab
   \<and> tracking_code res_ab = Some ''KG-AB12CD34''
   \<and> handleSearch db_ab None ''kg-ab12cd34'' None = not_found"
  by (simp add: find_reservation_def example_defs example_defs4 search_defs rls_defs has_role_def)

text \<open>
  Claim C5, amended. For input made of ASCII characters (the one with code 0 excepted),
  the lookup trims and upper-cases its input and compares the result exactly with the
  stored codes, among the reservations that the session may read: its own ones, or all of
  them for an administrator.
  \<^item> When the stored codes are distinct and such a reservation has the code, the lookup
    returns it: seven columns of the reservation, and the route and date columns of its
    offer when the session may read the offer (an active offer, or any offer for an
    administrator).
  \<^item> The result does not depend on \<open>user_id\<close>, which is not among the returned columns.
  \<^item> When no reservation that the session may read has the code, the result is
    \<open>not found\<close>, which is not an error.
  \<^item> A lookup without a session is either not made (blank input) or gives \<open>not found\<close>.
\<close>

theorem lookup_by_tracking_code:
  "(is_ascii searchCode \<and> trim searchCode \<noteq> [] \<and> distinct (stored_codes db)
      \<and> r \<in> set (reservations db)
      \<and> tracking_code r = Some (toUpperCase (trim searchCode))
      \<and> (uid = Some (res_user_id r) \<or> has_role db uid admin)
     \<longrightarrow> handleSearch db uid searchCode None = found (select_reservation db uid r))
   \<and> (find_offer db (cargo_offer_id r) = Some ofr
        \<and> (is_active ofr = Some True \<or> has_role db uid admin)
     \<longrightarrow> trk_cargo_offers (select_reservation db uid r) = Some (select_offer ofr))
   \<and> select_reservation db uid (r\<lparr>res_user_id := x\<rparr>) = select_reservation db uid r
   \<and> (is_ascii searchCode \<and> trim searchCode \<noteq> []
        \<and> \<not> list_ex (\<lambda>x. (uid = Some (res_user_id x) \<or> has_role db uid admin)
                         \<and> tracking_code x = Some (toUpperCase (trim searchCode)))
              (reservations db)
     \<longrightarrow> handleSearch db uid searchCode None = not_found)
   \<and> (handleSearch db None trackingCode code = no_search
        \<or> handleSearch db None trackingCode code = not_found)"
  using handleSearch_found[of searchCode db r uid] select_reservation_offer[of db r ofr uid]
        handleSearch_miss[of searchCode uid db] handleSearch_anonymous[of db trackingCode code]
  by (simp add: select_reservation_def)

text \<open>
  The owner (user 7) finds reservation 11 with \<open>kg-ab12cd34\<close> written in lower case and
  with spaces around it, the administrator finds it as well, user 8 does not, and a code
  that is not stored is not found.
\<close>

theorem lookup_by_tracking_code_witness:
  "handleSearch db_ab (Some 7) ''  kg-ab12cd34 '' None =
     found \<lparr>trk_id = 11, trk_tracking_code = Some ''KG-AB12CD34'', trk_kilos_reserved = 15,
            trk_shipment_description = Some ''books'', trk_status = pending_submission,
            trk_status_updated_at = 100, trk_created_at = 100,
            trk_cargo_offers = Some (select_offer offer5)\<rparr>
   \<and> handleSearch db_ab (Some 9) ''KG-AB12CD34'' None = found (select_reservation db_ab (Some 9) res_ab)
   \<and> handleSearch db_ab (Some 8) ''KG-AB12CD34'' None = not_found
   \<and> handleSearch db_ab (Some 7) ''KG-ZZZZZZZZ'' None = not_found"
proof -
  have i: "is_ascii ''  kg-ab12cd34 ''" "is_ascii ''KG-AB12CD34''" "is_ascii ''KG-ZZZZZZZZ''"
    by (simp_all add: is_ascii_def)
  have a: "toUpperCase (trim ''  kg-ab12cd34 '') = ''KG-AB12CD34''" "trim ''  kg-ab12cd34 '' \<noteq> []"
    "toUpperCase (trim ''KG-AB12CD34'') = ''KG-AB12CD34''" "trim ''KG-AB12CD34'' \<noteq> []"
    "toUpperCase (trim ''KG-ZZZZZZZZ'') = ''KG-ZZZZZZZZ''" "trim ''KG-ZZZZZZZZ'' \<noteq> []"
    by (simp_all add: search_defs)
  have b: "distinct (stored_codes db_ab)" "res_ab \<in> set (reservations db_ab)"
    "tracking_code res_ab = Some ''KG-AB12CD34''" "res_user_id res_ab = 7"
    "has_role db_ab (Some 9) admin" "\<not> has_role db_ab (Some 8) admin" "\<not> has_role db_ab (Some 7) admin"
    "reservations db_ab = [res_ab]"
    by (simp_all add: stored_codes_def List.map_filter_def has_role_def example_defs example_defs4)
  have c: "select_reservation db_ab (Some 7) res_ab =
     \<lparr>trk_id = 11, trk_tracking_code = Some ''KG-AB12CD34'', trk_kilos_reserved = 15,
            trk_shipment_description = Some ''books'', trk_status = pending_submission,
            trk_status_updated_at = 100, trk_created_at = 100,
            trk_cargo_offers = Some (select_offer offer5)\<rparr>"
    by (simp add: select_reservation_def example_defs example_defs4 rls_defs has_role_def)
  from lookup_by_tracking_code
         [where searchCode = "''  kg-ab12cd34 ''" and db = db_ab and r = res_ab and uid = "Some 7"]
       lookup_by_tracking_code
         [where searchCode = "''KG-AB12CD34''" and db = db_ab and r = res_ab and uid = "Some 9"]
       lookup_by_tracking_code
         [where searchCode = "''KG-AB12CD34''" and db = db_ab and r = res_ab and uid = "Some 8"]
       lookup_by_tracking_code
         [where searchCode = "''KG-ZZZZZZZZ''" and db = db_ab and r = res_ab and uid = "Some 7"]
       i a b c
  show ?thesis by simp
qed

subsection \<open>C6: a history row and a new \<open>status_updated_at\<close> exactly when the status changes\<close>

text \<open>
  Claim C6. An administrator sets the status of a reservation (the only row with its id)
  to \<open>s\<close>. If \<open>s\<close> differs from the current status, exactly one row is appended to
  \<open>status_history\<close>, for this reservation and with status \<open>s\<close>, and \<open>status_updated_at\<close>
  becomes the current time. If \<open>s\<close> is the current status, \<open>status_history\<close> and
  \<open>status_updated_at\<close> stay as they are. In both cases the trigger
  \<open>update_updated_at_column\<close> refreshes \<open>updated_at\<close>, and nothing else in the tables
  changes. Any status may follow any other.
\<close>

theorem status_change_logged_iff_changed:
  assumes "has_role db uid admin"
      and "reservations db = pre @ r # post"
      and "\<forall>x \<in> set pre \<union> set post. res_id x \<noteq> res_id r"
  shows "handleUpdateStatus db uid e (Some (res_id r)) s =
           Inr (if res_status r \<noteq> s
                then db\<lparr>reservations :=
                          pre @ r\<lparr>res_status := s, status_updated_at := now e,
                                  res_updated_at := now e\<rparr> # post,
                        status_history := status_history db @
                          [\<lparr>hist_id = gen_random_uuid e, reservation_id = res_id r,
                            hist_status = s, hist_notes = None, hist_created_at = now e\<rparr>]\<rparr>
                else db\<lparr>reservations := pre @ r\<lparr>res_updated_at := now e\<rparr> # post\<rparr>)"
  using assms(2)
  by (simp add: handleUpdateStatus_def update_reservation_status_def
        update_status_rows_admin[OF assms(1,3)] update_reservation_row_admin[OF assms(1)])

text \<open>
  The administrator (user 9) moves reservation 11 from \<open>pending_submission\<close> to
  \<open>in_transit\<close> at time 400: one history row, \<open>status_updated_at = 400\<close>. Asking for
  \<open>pending_submission\<close> again instead leaves the history empty and
  \<open>status_updated_at = 100\<close>.
\<close>

theorem status_change_logged_iff_changed_witness:
  "has_role db1 (Some 9) admin
   \<and> reservations db1 = [] @ res15 # []
   \<and> handleUpdateStatus db1 (Some 9) (env_at 400 21 0) (Some 11) in_transit =
       Inr (db1\<lparr>reservations :=
                   [res15\<lparr>res_status := in_transit, status_updated_at := 400,
                          res_updated_at := 400\<rparr>],
                status_history :=
                   [\<lparr>hist_id = 21, reservation_id = 11, hist_status = in_transit,
                     hist_notes = None, hist_created_at = 400\<rparr>]\<rparr>)
   \<and> handleUpdateStatus db1 (Some 9) (env_at 400 21 0) (Some 11) pending_submission =
       Inr (db1\<lparr>reservations := [res15\<lparr>res_updated_at := 400\<rparr>]\<rparr>)
   \<and> status_updated_at (res15\<lparr>res_updated_at := 400\<rparr>) = 100"
proof -
  have a: "has_role db1 (Some 9) admin" by (simp add: has_role_def example_defs)
  have b: "reservations db1 = [] @ res15 # []" by (simp add: example_defs)
  have c: "\<forall>x \<in> set [] \<union> set []. res_id x \<noteq> res_id res15" by simp
  have d: "res_id res15 = 11" "res_status res15 = pending_submission"
    "status_updated_at res15 = 100" "status_history db1 = []"
    by (simp_all add: example_defs)
  from status_change_logged_iff_changed [OF a b c, of "env_at 400 21 0" in_transit]
       status_change_logged_iff_changed [OF a b c, of "env_at 400 21 0" pending_submission]
       a b d
  show ?thesis by (simp add: env_at_def)
qed

subsection \<open>C7: deleting the reservation gives the kilos back\<close>



subsection \<open>C8: shape of generated codes, uniqueness of stored codes\<close>




subsection \<open>C9: no policy lets a session delete a reservation\<close>

text \<open>
  Claim C9, as stated, says that the attempt to delete the row is rejected. Under row-level
  security a \<open>DELETE\<close> leaves out the rows that no policy lets the session delete and
  reports no error for them. In the example user 8 deletes reservation 13, which is theirs:
  the statement succeeds, and the tables are what they were.
\<close>

theorem api_delete_reports_no_error_counterexample:
  "find_reservation db_full 13 = Some (res10\<lparr>kilos_reserved := 5\<rparr>)
   \<and> res_user_id (res10\<lparr>kilos_reserved := 5\<rparr>) = 8
   \<and> api_delete_reservation db_full (Some 8) (env_at 500 14 0) 13 = Inr db_full"
  by (simp add: api_delete_reservation_def delete_reservations_where_def no_delete_policy
        find_reservation_def example_defs example_defs3)

text \<open>
  Claim C9, amended. Row-level security is enabled on \<open>reservations\<close> and its policies are
  for \<open>SELECT\<close>, \<open>INSERT\<close> and \<open>UPDATE\<close> only. Hence, for every session (the owner of the
  row, an administrator, anybody), every state of the tables and every id, a \<open>DELETE\<close> of
  that reservation sent through the data API deletes nothing and reports no error: the
  statement returns with the tables exactly as they were, so the row persists unchanged.
\<close>

theorem api_delete_reservation_no_effect:
  "list_all (\<lambda>p. policy_cmd p = cmd_select \<or> policy_cmd p = cmd_insert \<or> policy_cmd p = cmd_update)
     reservations_policies
   \<and> api_delete_reservation db uid e rid = Inr db"
  by (simp add: api_delete_reservation_def delete_reservations_where_def no_delete_policy)
     (simp add: reservations_policies_def)

text \<open>
  In the example, neither the owner (user 7) nor the administrator (user 9) removes
  reservation 11, which is still stored afterwards.
\<close>

theorem api_delete_reservation_no_effect_witness:
  "api_delete_reservation db1 (Some 7) (env_at 200 12 0) 11 = Inr db1
   \<and> api_delete_reservation db1 (Some 9) (env_at 200 12 0) 11 = Inr db1
   \<and> has_role db1 (Some 9) admin
   \<and> find_reservation db1 11 = Some res15"
  using api_delete_reservation_no_effect [of db1 "Some 7" "env_at 200 12 0" 11]
        api_delete_reservation_no_effect [of db1 "Some 9" "env_at 200 12 0" 11]
  by (simp add: find_reservation_def has_role_def example_defs)

subsection \<open>C10: a tracking code supplied by the client is kept\<close>

text \<open>
  Claim C10. The trigger \<open>set_tracking_code\<close> generates a code exactly when the inserted
  row has \<open>tracking_code\<close> \<open>NULL\<close>; a row that comes with a code leaves the trigger unchanged.
  The insert policy only compares \<open>auth.uid()\<close> with \<open>user_id\<close>, whatever the code is. So
  every successful insert that supplies a code stores the row with exactly that code: the
  \<open>KG-\<close> shape is a property of generated codes only.
\<close>

theorem set_tracking_code_only_when_null:
  "(tracking_code NEW = None \<longrightarrow>
      set_tracking_code e NEW = NEW\<lparr>tracking_code := Some (generate_tracking_code (random e))\<rparr>)
   \<and> (tracking_code NEW \<noteq> None \<longrightarrow> set_tracking_code e NEW = NEW)
   \<and> with_check_ok reservations_policies cmd_insert db uid NEW = (uid = Some (res_user_id NEW))
   \<and> (\<forall>c db'. ins_tracking_code p = Some c \<and> insert_reservation db uid e p = Inr db'
        \<longrightarrow> reservations db' = reservations db @ [new_row e p]
            \<and> tracking_code (new_row e p) = Some c)"
proof (intro conjI allI impI)
  fix c db'
  assume h: "ins_tracking_code p = Some c \<and> insert_reservation db uid e p = Inr db'"
  then have k: "set_tracking_code e (new_row e p) = new_row e p"
    by (simp add: set_tracking_code_def)
  from h insert_reservation_InrD(6)[of db uid e p db'] k
  show "reservations db' = reservations db @ [new_row e p]" by simp
  from h show "tracking_code (new_row e p) = Some c" by simp
qed (simp_all add: set_tracking_code_def insert_check)

text \<open>
  User 8 inserts a reservation with the code \<open>my code\<close>, which does not have the \<open>KG-\<close>
  shape; the insert succeeds and the row is stored with that code.
\<close>

theorem set_tracking_code_only_when_null_witness:
  "ins_tracking_code own_code_insert = Some ''my code''
   \<and> insert_reservation db1 (Some 8) (env_at 300 13 0) own_code_insert = Inr db_own_code
   \<and> reservations db_own_code = reservations db1 @ [new_row (env_at 300 13 0) own_code_insert]
   \<and> tracking_code (new_row (env_at 300 13 0) own_code_insert) = Some ''my code''
   \<and> \<not> tracking_code_format ''my code''"
proof -
  have a: "ins_tracking_code own_code_insert = Some ''my code''"
    by (simp add: own_code_insert_def)
  note b = own_code_insert_result
  have c: "\<not> tracking_code_format ''my code''"
    by (simp add: tracking_code_format_def)
  from set_tracking_code_only_when_null
         [of "new_row (env_at 300 13 0) own_code_insert" "env_at 300 13 0" db1 "Some 8"
             own_code_insert] a b c
  show ?thesis by blast
qed

end
